theory Spec2Isabelle
  imports Main
begin

section \<open>JavaScript primitives used by the chat client\<close>

text \<open>
  Strings are lists of code units. \<open>String.prototype.trim\<close> removes the white space and
  line terminators at both ends; of those, the ones a \<^typ>\<open>char\<close> can hold are tab, line
  feed, vertical tab, form feed, carriage return, space and the no-break space.
\<close>

definition is_ws :: "char \<Rightarrow> bool" where
  "is_ws c \<longleftrightarrow> c = CHR 0x09 \<or> c = CHR 0x0A \<or> c = CHR 0x0B \<or> c = CHR 0x0C
     \<or> c = CHR 0x0D \<or> c = CHR 0x20 \<or> c = CHR 0xA0"

definition trim :: "string \<Rightarrow> string" where
  "trim s = rev (dropWhile is_ws (rev (dropWhile is_ws s)))"

text \<open>\<open>s.slice(0, n)\<close> for a non-negative \<open>n\<close>.\<close>

definition slice0 :: "nat \<Rightarrow> string \<Rightarrow> string" where
  "slice0 n s = take n s"

definition startsWith :: "string \<Rightarrow> string \<Rightarrow> bool" where
  "startsWith p s \<longleftrightarrow> take (length p) s = p"

text \<open>\<open>Number.prototype.toString\<close> on a non-negative integer: its decimal digits.\<close>

definition digit_char :: "nat \<Rightarrow> char" where
  "digit_char d = ''0123456789'' ! d"

fun toString :: "nat \<Rightarrow> string" where
  "toString n = (if n < 10 then [digit_char n] else toString (n div 10) @ [digit_char (n mod 10)])"

declare toString.simps [simp del]

text \<open>
  \<open>a || b\<close> where \<open>a\<close> is a string or \<open>undefined\<close> (\<open>None\<close>): both \<open>undefined\<close> and the
  empty string are falsy.
\<close>

definition js_or :: "string option \<Rightarrow> string \<Rightarrow> string" where
  "js_or a b = (case a of None \<Rightarrow> b | Some x \<Rightarrow> if x = [] then b else x)"

text \<open>
  One reading of the clock: \<open>Date.now()\<close> in milliseconds and the text of
  \<open>new Date().toISOString()\<close>. The two are separate calls in the source, so nothing
  relates the two fields.
\<close>

record clock =
  date_now :: nat
  date_iso :: string

section \<open>Data model of the application context\<close>

text \<open>
  A conversation object \<open>{ id, title, createdAt }\<close>. The fields \<open>id\<close> and \<open>createdAt\<close>
  are optional because \<open>{ ...prev, title }\<close> on a \<open>null\<close> \<open>prev\<close> builds an object that
  has a title only.
\<close>

record conversation =
  cid :: "string option"
  title :: string
  createdAt :: "string option"

text \<open>A blob URL handed out by \<open>URL.createObjectURL\<close>, identified by its serial number.\<close>

type_synonym url = nat

record attachment_summary =
  sname :: string
  ssize :: nat
  stype :: string
  spreview :: "url option"

datatype role = User | Assistant

text \<open>
  A message. Assistant messages carry no \<open>files\<close> field (\<open>None\<close>); \<open>merror\<close> is
  \<open>True\<close> only where the source writes \<open>error: true\<close>.
\<close>

record message =
  mid :: string
  mrole :: role
  mcontent :: string
  mtimestamp :: string
  mfiles :: "attachment_summary list option"
  merror :: bool

record app_state =
  conversations :: "conversation list"
  currentConversation :: "conversation option"
  messages :: "message list"
  isLoading :: bool
  sidebarOpen :: bool

definition initial_state :: app_state where
  "initial_state = \<lparr>conversations = [], currentConversation = None, messages = [],
     isLoading = False, sidebarOpen = True\<rparr>"

section \<open>Conversation store\<close>

definition createNewConversation :: "clock \<Rightarrow> app_state \<Rightarrow> app_state" where
  "createNewConversation clk s =
     (let newConversation = \<lparr>cid = Some (toString (date_now clk)), title = ''New Chat'',
            createdAt = Some (date_iso clk)\<rparr>
      in s\<lparr>conversations := newConversation # conversations s,
           currentConversation := Some newConversation,
           messages := []\<rparr>)"

definition selectConversation :: "string \<Rightarrow> app_state \<Rightarrow> app_state" where
  "selectConversation conversationId s =
     (case find (\<lambda>c. cid c = Some conversationId) (conversations s) of
        Some conversation \<Rightarrow> s\<lparr>currentConversation := Some conversation, messages := []\<rparr>
      | None \<Rightarrow> s)"

text \<open>\<open>currentConversation?.id === conversationId\<close>\<close>

definition current_has_id :: "app_state \<Rightarrow> string \<Rightarrow> bool" where
  "current_has_id s conversationId =
     (case currentConversation s of None \<Rightarrow> False | Some c \<Rightarrow> cid c = Some conversationId)"

definition deleteConversation :: "string \<Rightarrow> app_state \<Rightarrow> app_state" where
  "deleteConversation conversationId s =
     (let s1 = s\<lparr>conversations := filter (\<lambda>c. cid c \<noteq> Some conversationId) (conversations s)\<rparr>
      in if current_has_id s conversationId
         then s1\<lparr>currentConversation := None, messages := []\<rparr>
         else s1)"

text \<open>\<open>{ ...prev, title: t }\<close>\<close>

definition spread_title :: "conversation option \<Rightarrow> string \<Rightarrow> conversation" where
  "spread_title prev t =
     (case prev of None \<Rightarrow> \<lparr>cid = None, title = t, createdAt = None\<rparr>
                 | Some c \<Rightarrow> c\<lparr>title := t\<rparr>)"

definition renameConversation :: "string \<Rightarrow> string \<Rightarrow> app_state \<Rightarrow> app_state" where
  "renameConversation conversationId newTitle s =
     (if trim newTitle = [] then s
      else
        let s1 = s\<lparr>conversations :=
                    map (\<lambda>c. if cid c = Some conversationId then c\<lparr>title := trim newTitle\<rparr> else c)
                        (conversations s)\<rparr>
        in if current_has_id s conversationId
           then s1\<lparr>currentConversation :=
                     Some (spread_title (currentConversation s1) (trim newTitle))\<rparr>
           else s1)"

definition clearCurrentConversation :: "app_state \<Rightarrow> app_state" where
  "clearCurrentConversation s = s\<lparr>currentConversation := None, messages := []\<rparr>"

definition toggleSidebar :: "app_state \<Rightarrow> app_state" where
  "toggleSidebar s = s\<lparr>sidebarOpen := \<not> sidebarOpen s\<rparr>"

section \<open>Staged attachments\<close>

text \<open>A browser \<open>File\<close>: only its name, size in bytes and media type are read.\<close>

record js_file =
  fname :: string
  fsize :: nat
  ftype :: string

text \<open>
  A staged attachment \<open>{ id, file, name, size, type, preview }\<close>. The id is the number
  \<open>Date.now() + Math.random()\<close>; only \<open>===\<close> is ever applied to it, so its type is
  left open.
\<close>

record 'i attachment =
  aid :: 'i
  afile :: js_file
  aname :: string
  asize :: nat
  atype :: string
  preview :: "url option"

section \<open>Dispatch protocol\<close>

text \<open>The body of a successful reply: each field may be absent.\<close>

record response_data =
  r_response :: "string option"
  r_message :: "string option"
  r_conversation_id :: "string option"

text \<open>
  How the awaited request ends: \<open>axios.post\<close> rejects, or it resolves with a body.
  A body that is \<open>null\<close> (\<open>None\<close>) makes \<open>response.data.response\<close> throw inside the
  \<open>try\<close> block, before any state is touched.
\<close>

datatype outcome = Rejected | Resolved "response_data option"

text \<open>The multipart form that is posted to \<open>/api/chat/message\<close>.\<close>

record request =
  req_message :: string
  req_conversation_id :: string
  req_files :: "js_file list"

text \<open>
  What a call of \<open>sendMessage\<close> holds while the request is awaited: its arguments and
  the two values of the closure, \<open>currentConversation\<close> and \<open>messages.length\<close>, as
  they were when the callback was built, which is the state at the call.
\<close>

record 'i pending =
  p_content :: string
  p_files :: "'i attachment list"
  p_currentConversation :: "conversation option"
  p_messages_length :: nat
  p_request :: request

definition summary :: "'i attachment \<Rightarrow> attachment_summary" where
  "summary f = \<lparr>sname = aname f, ssize = asize f, stype = atype f, spreview = preview f\<rparr>"

text \<open>
  \<open>content.trim() || files.length > 0 ? `Sent ${files.length} file(s)` : ''\<close>:
  the conditional operator binds weaker than \<open>||\<close>, so the whole disjunction is its
  condition.
\<close>

definition user_content :: "string \<Rightarrow> 'i attachment list \<Rightarrow> string" where
  "user_content content files =
     (if trim content \<noteq> [] \<or> length files > 0
      then ''Sent '' @ toString (length files) @ '' file(s)''
      else [])"

definition userMessage :: "string \<Rightarrow> 'i attachment list \<Rightarrow> clock \<Rightarrow> message" where
  "userMessage content files clk =
     \<lparr>mid = toString (date_now clk), mrole = User, mcontent = user_content content files,
      mtimestamp = date_iso clk, mfiles = Some (map summary files), merror = False\<rparr>"

definition build_request :: "string \<Rightarrow> 'i attachment list \<Rightarrow> conversation option \<Rightarrow> request" where
  "build_request content files cur =
     \<lparr>req_message = trim content,
      req_conversation_id = js_or (case cur of None \<Rightarrow> None | Some c \<Rightarrow> cid c) [],
      req_files = map afile files\<rparr>"

text \<open>
  \<open>sendMessage\<close> up to the \<open>await\<close>: nothing happens when there is neither text nor a
  file; otherwise the user message is appended, the loading flag is raised and the
  request is issued.
\<close>

definition sendMessage_call ::
  "string \<Rightarrow> 'i attachment list \<Rightarrow> clock \<Rightarrow> app_state \<Rightarrow> app_state \<times> 'i pending option" where
  "sendMessage_call content files clk s =
     (if trim content = [] \<and> length files = 0 then (s, None)
      else
        (s\<lparr>messages := messages s @ [userMessage content files clk], isLoading := True\<rparr>,
         Some \<lparr>p_content = content, p_files = files,
               p_currentConversation = currentConversation s,
               p_messages_length = length (messages s),
               p_request = build_request content files (currentConversation s)\<rparr>))"

text \<open>\<open>content.trim().slice(0, 50) || `Chat with ${files.length} file(s)`\<close>\<close>

definition derive_title :: "string \<Rightarrow> 'i attachment list \<Rightarrow> string" where
  "derive_title content files =
     js_or (Some (slice0 50 (trim content)))
           (''Chat with '' @ toString (length files) @ '' file(s)'')"

definition assistantMessage :: "response_data \<Rightarrow> clock \<Rightarrow> message" where
  "assistantMessage d clk =
     \<lparr>mid = toString (date_now clk + 1), mrole = Assistant,
      mcontent = js_or (r_response d) (js_or (r_message d) ''No response received''),
      mtimestamp = date_iso clk, mfiles = None, merror = False\<rparr>"

definition errorMessage :: "clock \<Rightarrow> message" where
  "errorMessage clk =
     \<lparr>mid = toString (date_now clk + 1), mrole = Assistant,
      mcontent = ''Sorry, I encountered an error. Please try again.'',
      mtimestamp = date_iso clk, mfiles = None, merror = True\<rparr>"

text \<open>
  The first \<open>if\<close> after the reply: the test reads the closure, the update of the
  current conversation is a functional update of whatever is current now, and the
  update of the list goes by the id of the closure's conversation.
\<close>

definition update_title :: "'i pending \<Rightarrow> app_state \<Rightarrow> app_state" where
  "update_title p s =
     (case p_currentConversation p of
        None \<Rightarrow> s
      | Some c \<Rightarrow>
          if title c = ''New Chat'' \<and> p_messages_length p = 0
          then
            let newTitle = derive_title (p_content p) (p_files p)
            in s\<lparr>currentConversation := Some (spread_title (currentConversation s) newTitle),
                 conversations :=
                   map (\<lambda>c'. if cid c' = cid c then c'\<lparr>title := newTitle\<rparr> else c')
                       (conversations s)\<rparr>
          else s)"

text \<open>The second \<open>if\<close>: the closure held no conversation.\<close>

definition create_if_missing :: "'i pending \<Rightarrow> response_data \<Rightarrow> clock \<Rightarrow> app_state \<Rightarrow> app_state" where
  "create_if_missing p d clk s =
     (case p_currentConversation p of
        Some c \<Rightarrow> s
      | None \<Rightarrow>
          let newConversation =
                \<lparr>cid = Some (js_or (r_conversation_id d) (toString (date_now clk))),
                 title = derive_title (p_content p) (p_files p),
                 createdAt = Some (date_iso clk)\<rparr>
          in s\<lparr>currentConversation := Some newConversation,
               conversations := newConversation # conversations s\<rparr>)"

text \<open>
  \<open>sendMessage\<close> from the moment the awaited request ends, run on the state of that
  moment. \<open>mclk\<close> is the clock read for the reply's message, \<open>cclk\<close> the one read for
  a conversation that is created.
\<close>

definition sendMessage_settle ::
  "'i pending \<Rightarrow> outcome \<Rightarrow> clock \<Rightarrow> clock \<Rightarrow> app_state \<Rightarrow> app_state" where
  "sendMessage_settle p out mclk cclk s =
     (case out of
        Resolved (Some d) \<Rightarrow>
          (let s1 = s\<lparr>messages := messages s @ [assistantMessage d mclk]\<rparr>;
               s2 = update_title p s1;
               s3 = create_if_missing p d cclk s2
           in s3\<lparr>isLoading := False\<rparr>)
      | _ \<Rightarrow> s\<lparr>messages := messages s @ [errorMessage mclk], isLoading := False\<rparr>)"

text \<open>A send during which nothing else happens.\<close>

definition sendMessage ::
  "string \<Rightarrow> 'i attachment list \<Rightarrow> clock \<Rightarrow> outcome \<Rightarrow> clock \<Rightarrow> clock \<Rightarrow> app_state \<Rightarrow> app_state" where
  "sendMessage content files clk out mclk cclk s =
     (case sendMessage_call content files clk s of
        (s', None) \<Rightarrow> s'
      | (s', Some p) \<Rightarrow> sendMessage_settle p out mclk cclk s')"

section \<open>Attachment staging on the chat page\<close>

text \<open>
  The browser's blob URL store: \<open>URL.createObjectURL\<close> registers a URL that was never
  issued before, \<open>URL.revokeObjectURL\<close> drops one and does nothing for a URL that is
  not registered.
\<close>

record url_store =
  live :: "url set"
  issued :: nat

definition createObjectURL :: "url_store \<Rightarrow> url \<times> url_store" where
  "createObjectURL st = (issued st, \<lparr>live = insert (issued st) (live st), issued = Suc (issued st)\<rparr>)"

definition revokeObjectURL :: "url \<Rightarrow> url_store \<Rightarrow> url_store" where
  "revokeObjectURL u st = st\<lparr>live := live st - {u}\<rparr>"

record 'i chat_page =
  attachedFiles :: "'i attachment list"
  urls :: url_store
  alerts :: "string list"

definition maxSize :: nat where
  "maxSize = 10 * 1024 * 1024"

definition is_image :: "string \<Rightarrow> bool" where
  "is_image t = startsWith ''image/'' t"

text \<open>
  The \<open>map\<close> over the valid files, left to right. Each file comes with the number that
  \<open>Date.now() + Math.random()\<close> yields for it.
\<close>

fun newFiles :: "('i \<times> js_file) list \<Rightarrow> url_store \<Rightarrow> 'i attachment list \<times> url_store" where
  "newFiles [] st = ([], st)"
| "newFiles ((i, f) # rest) st =
     (let (pv, st1) = (if is_image (ftype f)
                       then (let (u, st') = createObjectURL st in (Some u, st'))
                       else (None, st));
          (more, st2) = newFiles rest st1
      in (\<lparr>aid = i, afile = f, aname = fname f, asize = fsize f, atype = ftype f,
           preview = pv\<rparr> # more, st2))"

definition too_large :: "js_file \<Rightarrow> bool" where
  "too_large f \<longleftrightarrow> fsize f > maxSize"

definition alert_text :: "js_file \<Rightarrow> string" where
  "alert_text f = ''File '' @ fname f @ '' is too large. Maximum size is 10MB.''"

text \<open>
  \<open>handleFileSelect\<close>: the selected files, each paired with the id drawn for it should
  it pass the size filter.
\<close>

definition handleFileSelect :: "('i \<times> js_file) list \<Rightarrow> 'i chat_page \<Rightarrow> 'i chat_page" where
  "handleFileSelect selected pg =
     (let validFiles = filter (\<lambda>(i, f). \<not> too_large f) selected;
          rejected = filter (\<lambda>(i, f). too_large f) selected;
          (new, st) = newFiles validFiles (urls pg)
      in pg\<lparr>attachedFiles := attachedFiles pg @ new,
            urls := st,
            alerts := alerts pg @ map (\<lambda>(i, f). alert_text f) rejected\<rparr>)"

definition removeFile :: "'i \<Rightarrow> 'i chat_page \<Rightarrow> 'i chat_page" where
  "removeFile fileId pg =
     (let fileToRemove = find (\<lambda>f. aid f = fileId) (attachedFiles pg);
          st = (case fileToRemove of
                  None \<Rightarrow> urls pg
                | Some f \<Rightarrow> (case preview f of None \<Rightarrow> urls pg
                                            | Some u \<Rightarrow> revokeObjectURL u (urls pg)))
      in pg\<lparr>attachedFiles := filter (\<lambda>f. aid f \<noteq> fileId) (attachedFiles pg), urls := st\<rparr>)"

definition empty_page :: "nat \<Rightarrow> 'i chat_page" where
  "empty_page n = \<lparr>attachedFiles = [], urls = \<lparr>live = {}, issued = n\<rparr>, alerts = []\<rparr>"





section \<open>Auxiliary notions for the properties\<close>

text \<open>
  The reading of the dispatch protocol in which the current conversation is looked up
  again when the reply arrives: the closure's conversation is replaced by the one that
  is current in the state of that moment.
\<close>

definition resolve_at_arrival :: "'i pending \<Rightarrow> app_state \<Rightarrow> 'i pending" where
  "resolve_at_arrival p s = p\<lparr>p_currentConversation := currentConversation s\<rparr>"

definition settle_resolving_at_arrival ::
  "'i pending \<Rightarrow> outcome \<Rightarrow> clock \<Rightarrow> clock \<Rightarrow> app_state \<Rightarrow> app_state" where
  "settle_resolving_at_arrival p out mclk cclk s =
     sendMessage_settle (resolve_at_arrival p s) out mclk cclk s"

text \<open>The preview URLs held by the staged attachments, and the staged images.\<close>

definition previews_of :: "'i attachment list \<Rightarrow> url list" where
  "previews_of fs = map (the \<circ> preview) (filter (\<lambda>f. preview f \<noteq> None) fs)"




text \<open>Concrete values for the examples.\<close>

definition clk0 :: clock where
  "clk0 = \<lparr>date_now = 1700000000000, date_iso = ''2023-11-14T22:13:20.000Z''\<rparr>"

definition clk1 :: clock where
  "clk1 = \<lparr>date_now = 1700000000250, date_iso = ''2023-11-14T22:13:20.250Z''\<rparr>"

definition clk2 :: clock where
  "clk2 = \<lparr>date_now = 1700000000900, date_iso = ''2023-11-14T22:13:20.900Z''\<rparr>"

definition no_files :: "nat attachment list" where
  "no_files = []"

definition report_pdf :: js_file where
  "report_pdf = \<lparr>fname = ''report.pdf'', fsize = 48213, ftype = ''application/pdf''\<rparr>"

definition notes_txt :: js_file where
  "notes_txt = \<lparr>fname = ''notes.txt'', fsize = 912, ftype = ''text/plain''\<rparr>"

definition photo_png :: js_file where
  "photo_png = \<lparr>fname = ''photo.png'', fsize = 5, ftype = ''image/png''\<rparr>"


definition two_docs :: "nat attachment list" where
  "two_docs = attachedFiles (handleFileSelect [(1, report_pdf), (2, notes_txt)] (empty_page 0))"

definition one_photo :: "nat attachment list" where
  "one_photo = attachedFiles (handleFileSelect [(3, photo_png)] (empty_page 0))"

definition reply_ok :: response_data where
  "reply_ok = \<lparr>r_response = Some ''ok'', r_message = None, r_conversation_id = None\<rparr>"

definition reply_hi_c1 :: response_data where
  "reply_hi_c1 = \<lparr>r_response = Some ''hi'', r_message = None, r_conversation_id = Some ''c1''\<rparr>"

definition clk3 :: clock where
  "clk3 = \<lparr>date_now = 1700000002000, date_iso = ''2023-11-14T22:13:22.000Z''\<rparr>"

text \<open>
  Two fresh conversations, the later one current; a send of \<open>hello\<close> from there, as
  it stands while the request is awaited; and the state after the other conversation was
  selected in the meantime.
\<close>

definition two_chats :: app_state where
  "two_chats = createNewConversation clk1 (createNewConversation clk0 initial_state)"

definition hello_pending :: "nat pending" where
  "hello_pending =
     \<lparr>p_content = ''hello'', p_files = no_files,
      p_currentConversation = Some \<lparr>cid = Some ''1700000000250'', title = ''New Chat'',
                                    createdAt = Some (date_iso clk1)\<rparr>,
      p_messages_length = 0,
      p_request = \<lparr>req_message = ''hello'', req_conversation_id = ''1700000000250'',
                   req_files = []\<rparr>\<rparr>"

definition hello_waiting :: app_state where
  "hello_waiting = two_chats\<lparr>messages := [userMessage ''hello'' no_files clk2], isLoading := True\<rparr>"

definition switched :: app_state where
  "switched = selectConversation ''1700000000000'' hello_waiting"

text \<open>
  A title of 51 characters, and a request whose first 50 characters end in a space.
\<close>

definition long_title :: string where
  "long_title = ''Quarterly fibre rollout review and budget planning.''"

definition survey_request :: string where
  "survey_request = ''Summarise the attached site survey for the region and list the open issues''"

definition survey_title :: string where
  "survey_title = ''Summarise the attached site survey for the region ''"

definition survey_chat :: app_state where
  "survey_chat = sendMessage survey_request no_files clk1 (Resolved (Some reply_ok)) clk2 clk2
                   (createNewConversation clk0 initial_state)"



section \<open>Decimal rendering\<close>

lemma digit_char_inj: "a < 10 \<Longrightarrow> b < 10 \<Longrightarrow> digit_char a = digit_char b \<Longrightarrow> a = b"
proof -
  assume a: "a < 10" and b: "b < 10" and e: "digit_char a = digit_char b"
  have A: "a \<in> {0,1,2,3,4,5,6,7,8,9}" using a by auto
  have B: "b \<in> {0,1,2,3,4,5,6,7,8,9}" using b by auto
  show ?thesis using A B e by (auto simp: digit_char_def)
qed

lemma toString_nonempty: "toString n \<noteq> []"
  by (subst toString.simps) simp

lemma toString_inj: "toString n = toString m \<Longrightarrow> n = m"
proof (induction n arbitrary: m rule: toString.induct)
  case (1 n)
  show ?case
  proof (cases "n < 10")
    case True
    note n = this
    show ?thesis
    proof (cases "m < 10")
      case True
      with n "1.prems" show ?thesis
        by (simp add: toString.simps [of n] toString.simps [of m] digit_char_inj)
    next
      case False
      with n "1.prems" toString_nonempty [of "m div 10"] show ?thesis
        by (simp add: toString.simps [of n] toString.simps [of m])
    qed
  next
    case False
    note n = this
    show ?thesis
    proof (cases "m < 10")
      case True
      with n "1.prems" toString_nonempty [of "n div 10"] show ?thesis
        by (simp add: toString.simps [of n] toString.simps [of m])
    next
      case False
      with n "1.prems" have e: "toString (n div 10) = toString (m div 10)"
        and d: "digit_char (n mod 10) = digit_char (m mod 10)"
        by (simp_all add: toString.simps [of n] toString.simps [of m])
      from "1.IH" [OF n e] have q: "n div 10 = m div 10" .
      from d have r: "n mod 10 = m mod 10" by (intro digit_char_inj) simp_all
      from q r show ?thesis by (metis div_mult_mod_eq)
    qed
  qed
qed

lemma toString_clk0: "toString (date_now clk0) = ''1700000000000''"
  by (simp add: clk0_def toString.simps digit_char_def)

lemma toString_clk1: "toString (date_now clk1) = ''1700000000250''"
  by (simp add: clk1_def toString.simps digit_char_def)

lemma trim_hi: "trim ''hi'' = ''hi''"
  by (simp add: trim_def is_ws_def)

lemma toString_0: "toString 0 = ''0''"
  by (simp add: toString.simps digit_char_def)

lemma two_docs_eq:
  "two_docs =
     [\<lparr>aid = 1, afile = report_pdf, aname = ''report.pdf'', asize = 48213,
        atype = ''application/pdf'', preview = None\<rparr>,
      \<lparr>aid = 2, afile = notes_txt, aname = ''notes.txt'', asize = 912,
        atype = ''text/plain'', preview = None\<rparr>]"
  by (simp add: two_docs_def handleFileSelect_def empty_page_def too_large_def maxSize_def
      report_pdf_def notes_txt_def is_image_def startsWith_def)

lemma toString_Suc_Suc_0: "toString (Suc (Suc 0)) = ''2''"
  by (simp add: toString.simps digit_char_def)

lemma trim_empty: "trim [] = []"
  by (simp add: trim_def)

lemma trim_hello: "trim ''hello'' = ''hello''"
  by (simp add: trim_def is_ws_def)

lemma created_clk0:
  "createNewConversation clk0 initial_state =
     \<lparr>conversations = [\<lparr>cid = Some ''1700000000000'', title = ''New Chat'',
                          createdAt = Some (date_iso clk0)\<rparr>],
      currentConversation = Some \<lparr>cid = Some ''1700000000000'', title = ''New Chat'',
                          createdAt = Some (date_iso clk0)\<rparr>,
      messages = [], isLoading = False, sidebarOpen = True\<rparr>"
  by (simp add: createNewConversation_def Let_def initial_state_def toString_clk0)

lemma toString_clk2: "toString (date_now clk2) = ''1700000000900''"
  by (simp add: clk2_def toString.simps digit_char_def)

section \<open>The user message of a send\<close>

lemma user_content_sent:
  "trim content \<noteq> [] \<or> files \<noteq> [] \<Longrightarrow>
   user_content content files = ''Sent '' @ toString (length files) @ '' file(s)''"
  by (auto simp: user_content_def)

text \<open>
  C1. The user message appended by a send should carry the trimmed text whenever that
  text is not empty. In the source the conditional expression takes the whole
  disjunction as its condition, so the text is replaced by the count of files: sending
  \<open>hello\<close> with no file appends a user message that reads \<open>Sent 0 file(s)\<close>, although
  the trimmed text is \<open>hello\<close>.
\<close>

theorem C1_text_replaced_by_file_count:
  "map mcontent (messages (fst (sendMessage_call ''hello'' no_files clk0 initial_state)))
     = [''Sent 0 file(s)'']
   \<and> trim ''hello'' = ''hello''"
  by (simp add: sendMessage_call_def userMessage_def user_content_def trim_def is_ws_def
      initial_state_def no_files_def toString_0)

section \<open>Creating conversations\<close>

text \<open>
  C3, as the source has it. \<open>createNewConversation\<close> puts a conversation titled
  \<open>New Chat\<close>, stamped with the clock's time and identified by the decimal text of
  \<open>Date.now()\<close>, at the front of the list, makes it current and empties the message
  log; the callback returns no value, the new identity is the id of the current
  conversation. Two calls in a row whose readings of \<open>Date.now()\<close> differ leave two
  conversations with different ids at the front, the later one first and current, and
  an empty log.
\<close>

theorem C3_createNew_front_current_cleared:
  "conversations (createNewConversation clk s)
     = \<lparr>cid = Some (toString (date_now clk)), title = ''New Chat'',
        createdAt = Some (date_iso clk)\<rparr> # conversations s
   \<and> currentConversation (createNewConversation clk s)
     = Some \<lparr>cid = Some (toString (date_now clk)), title = ''New Chat'',
             createdAt = Some (date_iso clk)\<rparr>
   \<and> messages (createNewConversation clk s) = []
   \<and> (date_now clka \<noteq> date_now clkb \<longrightarrow>
        conversations (createNewConversation clkb (createNewConversation clka s))
          = \<lparr>cid = Some (toString (date_now clkb)), title = ''New Chat'',
             createdAt = Some (date_iso clkb)\<rparr>
            # \<lparr>cid = Some (toString (date_now clka)), title = ''New Chat'',
               createdAt = Some (date_iso clka)\<rparr>
            # conversations s
        \<and> toString (date_now clkb) \<noteq> toString (date_now clka)
        \<and> currentConversation (createNewConversation clkb (createNewConversation clka s))
          = Some \<lparr>cid = Some (toString (date_now clkb)), title = ''New Chat'',
                  createdAt = Some (date_iso clkb)\<rparr>
        \<and> messages (createNewConversation clkb (createNewConversation clka s)) = [])"
  using toString_inj [of "date_now clkb" "date_now clka"]
  by (auto simp: createNewConversation_def Let_def)

theorem C3_createNew_witness:
  "date_now clk0 \<noteq> date_now clk1
   \<and> map cid (conversations (createNewConversation clk1 (createNewConversation clk0 initial_state)))
       = [Some ''1700000000250'', Some ''1700000000000'']
   \<and> map title (conversations (createNewConversation clk1 (createNewConversation clk0 initial_state)))
       = [''New Chat'', ''New Chat'']
   \<and> currentConversation (createNewConversation clk1 (createNewConversation clk0 initial_state))
       = Some \<lparr>cid = Some ''1700000000250'', title = ''New Chat'',
               createdAt = Some (date_iso clk1)\<rparr>
   \<and> messages (createNewConversation clk1 (createNewConversation clk0 initial_state)) = []"
proof -
  have h: "date_now clk0 \<noteq> date_now clk1"
    by (simp add: clk0_def clk1_def)
  show ?thesis
    using h C3_createNew_front_current_cleared
      [where s = initial_state and clk = clk0 and clka = clk0 and clkb = clk1]
    by (simp add: toString_clk0 toString_clk1 initial_state_def)
qed

text \<open>
  C3 as stated fails when the clock does not advance between the two calls: both
  conversations get the same id, and the list holds the same conversation twice.
\<close>

theorem C3_same_millisecond_counterexample:
  "\<not> distinct (conversations (createNewConversation clk0 (createNewConversation clk0 initial_state)))
   \<and> map cid (conversations (createNewConversation clk0 (createNewConversation clk0 initial_state)))
       = [Some ''1700000000000'', Some ''1700000000000'']"
  by (simp add: createNewConversation_def Let_def toString_clk0 initial_state_def)

section \<open>Selecting a conversation\<close>

text \<open>
  C10. Selecting an id that some conversation of the list carries makes the first such
  conversation current and leaves the message log empty, whatever it held before;
  nothing else changes.
\<close>

theorem C10_select_sets_current_and_empties_log:
  assumes "Some i \<in> set (map cid (conversations s))"
  shows "(\<exists>c. find (\<lambda>c. cid c = Some i) (conversations s) = Some c
             \<and> c \<in> set (conversations s) \<and> cid c = Some i
             \<and> currentConversation (selectConversation i s) = Some c)
    \<and> messages (selectConversation i s) = []
    \<and> conversations (selectConversation i s) = conversations s
    \<and> isLoading (selectConversation i s) = isLoading s"
proof -
  from assms obtain c where c: "find (\<lambda>c. cid c = Some i) (conversations s) = Some c"
    by (cases "find (\<lambda>c. cid c = Some i) (conversations s)") (auto simp: find_None_iff)
  then have "c \<in> set (conversations s)" and "cid c = Some i"
    by (auto simp: find_Some_iff)
  with c show ?thesis
    by (simp add: selectConversation_def)
qed

theorem C10_select_witness:
  "Some ''1700000000000'' \<in> set (map cid (conversations
      (sendMessage ''hi'' no_files clk0 Rejected clk1 clk2
         (createNewConversation clk1 (createNewConversation clk0 initial_state)))))
   \<and> length (messages (sendMessage ''hi'' no_files clk0 Rejected clk1 clk2
         (createNewConversation clk1 (createNewConversation clk0 initial_state)))) = 2
   \<and> currentConversation (selectConversation ''1700000000000''
        (sendMessage ''hi'' no_files clk0 Rejected clk1 clk2
           (createNewConversation clk1 (createNewConversation clk0 initial_state))))
       = Some \<lparr>cid = Some ''1700000000000'', title = ''New Chat'',
               createdAt = Some (date_iso clk0)\<rparr>
   \<and> messages (selectConversation ''1700000000000''
        (sendMessage ''hi'' no_files clk0 Rejected clk1 clk2
           (createNewConversation clk1 (createNewConversation clk0 initial_state)))) = []"
proof -
  have s: "sendMessage ''hi'' no_files clk0 Rejected clk1 clk2
         (createNewConversation clk1 (createNewConversation clk0 initial_state))
     = \<lparr>conversations = [\<lparr>cid = Some ''1700000000250'', title = ''New Chat'',
                              createdAt = Some (date_iso clk1)\<rparr>,
                           \<lparr>cid = Some ''1700000000000'', title = ''New Chat'',
                              createdAt = Some (date_iso clk0)\<rparr>],
         currentConversation = Some \<lparr>cid = Some ''1700000000250'', title = ''New Chat'',
                              createdAt = Some (date_iso clk1)\<rparr>,
         messages = [userMessage ''hi'' no_files clk0, errorMessage clk1],
         isLoading = False, sidebarOpen = True\<rparr>"
    by (simp add: sendMessage_def sendMessage_call_def sendMessage_settle_def
        createNewConversation_def Let_def initial_state_def trim_hi toString_clk0 toString_clk1)
  have h: "Some ''1700000000000'' \<in> set (map cid (conversations
      (sendMessage ''hi'' no_files clk0 Rejected clk1 clk2
         (createNewConversation clk1 (createNewConversation clk0 initial_state)))))"
    by (simp add: s)
  show ?thesis
    using h C10_select_sets_current_and_empties_log [OF h]
    by (simp add: s)
qed

section \<open>A send that succeeds\<close>

lemma derive_title_eq:
  "derive_title content files =
     (if trim content = [] then ''Chat with '' @ toString (length files) @ '' file(s)''
      else take 50 (trim content))"
  by (cases "trim content") (simp_all add: derive_title_def js_or_def slice0_def)

lemma call_Some:
  "trim content \<noteq> [] \<or> files \<noteq> [] \<Longrightarrow>
   sendMessage_call content files clk s =
     (s\<lparr>messages := messages s @ [userMessage content files clk], isLoading := True\<rparr>,
      Some \<lparr>p_content = content, p_files = files,
            p_currentConversation = currentConversation s,
            p_messages_length = length (messages s),
            p_request = build_request content files (currentConversation s)\<rparr>)"
  by (auto simp: sendMessage_call_def)

lemma settle_resolved_conversations:
  "conversations (sendMessage_settle p (Resolved (Some d)) mclk cclk s) =
     (case p_currentConversation p of
        None \<Rightarrow>
          \<lparr>cid = Some (js_or (r_conversation_id d) (toString (date_now cclk))),
           title = derive_title (p_content p) (p_files p),
           createdAt = Some (date_iso cclk)\<rparr> # conversations s
      | Some c \<Rightarrow>
          if title c = ''New Chat'' \<and> p_messages_length p = 0
          then map (\<lambda>c'. if cid c' = cid c
                          then c'\<lparr>title := derive_title (p_content p) (p_files p)\<rparr> else c')
                   (conversations s)
          else conversations s)"
  by (simp add: sendMessage_settle_def update_title_def create_if_missing_def Let_def
      split: option.splits)

lemma settle_resolved_current:
  "currentConversation (sendMessage_settle p (Resolved (Some d)) mclk cclk s) =
     (case p_currentConversation p of
        None \<Rightarrow>
          Some \<lparr>cid = Some (js_or (r_conversation_id d) (toString (date_now cclk))),
           title = derive_title (p_content p) (p_files p),
           createdAt = Some (date_iso cclk)\<rparr>
      | Some c \<Rightarrow>
          if title c = ''New Chat'' \<and> p_messages_length p = 0
          then Some (spread_title (currentConversation s) (derive_title (p_content p) (p_files p)))
          else currentConversation s)"
  by (simp add: sendMessage_settle_def update_title_def create_if_missing_def Let_def
      split: option.splits)

lemma settle_resolved_messages:
  "messages (sendMessage_settle p (Resolved (Some d)) mclk cclk s) =
     messages s @ [assistantMessage d mclk]"
  by (simp add: sendMessage_settle_def update_title_def create_if_missing_def Let_def
      split: option.splits)

lemma settle_isLoading:
  "isLoading (sendMessage_settle p out mclk cclk s) = False"
  by (simp add: sendMessage_settle_def update_title_def create_if_missing_def Let_def
      split: option.splits outcome.splits)

text \<open>
  C5. A send that passes the precondition and is answered, made while the current
  conversation is titled \<open>New Chat\<close> and the log is empty, gives that conversation the
  title made of the first 50 characters of the trimmed text, or \<open>Chat with N file(s)\<close>
  when the trimmed text is empty: the current conversation and every entry of the list
  with its id carry the new title. Whatever state \<open>s'\<close> the reply finds, every entry of
  the list with that id gets the new title.
\<close>

theorem C5_first_exchange_sets_title:
  assumes cur: "currentConversation s = Some c"
    and new: "title c = ''New Chat''"
    and log: "messages s = []"
    and pre: "trim content \<noteq> [] \<or> files \<noteq> []"
  shows "currentConversation (sendMessage content files clk (Resolved (Some d)) mclk cclk s)
           = Some (c\<lparr>title := (if trim content = []
                                then ''Chat with '' @ toString (length files) @ '' file(s)''
                                else take 50 (trim content))\<rparr>)
       \<and> conversations (sendMessage content files clk (Resolved (Some d)) mclk cclk s)
           = map (\<lambda>c'. if cid c' = cid c
                        then c'\<lparr>title := (if trim content = []
                                then ''Chat with '' @ toString (length files) @ '' file(s)''
                                else take 50 (trim content))\<rparr>
                        else c') (conversations s)
       \<and> (case sendMessage_call content files clk s of
             (s1, None) \<Rightarrow> False
           | (s1, Some p) \<Rightarrow>
               conversations (sendMessage_settle p (Resolved (Some d)) mclk cclk s')
                 = map (\<lambda>c'. if cid c' = cid c
                        then c'\<lparr>title := (if trim content = []
                                then ''Chat with '' @ toString (length files) @ '' file(s)''
                                else take 50 (trim content))\<rparr>
                        else c') (conversations s'))"
proof -
  let ?T = "if trim content = [] then ''Chat with '' @ toString (length files) @ '' file(s)''
            else take 50 (trim content)"
  let ?p = "\<lparr>p_content = content, p_files = files,
            p_currentConversation = currentConversation s,
            p_messages_length = length (messages s),
            p_request = build_request content files (currentConversation s)\<rparr>"
  let ?s1 = "s\<lparr>messages := messages s @ [userMessage content files clk], isLoading := True\<rparr>"
  have call: "sendMessage_call content files clk s = (?s1, Some ?p)"
    using pre by (rule call_Some)
  have send: "sendMessage content files clk (Resolved (Some d)) mclk cclk s
      = sendMessage_settle ?p (Resolved (Some d)) mclk cclk ?s1"
    by (simp add: sendMessage_def call)
  have a: "currentConversation (sendMessage content files clk (Resolved (Some d)) mclk cclk s)
           = Some (c\<lparr>title := ?T\<rparr>)"
    unfolding send settle_resolved_current
    using cur new log by (simp add: derive_title_eq spread_title_def)
  have b: "conversations (sendMessage content files clk (Resolved (Some d)) mclk cclk s)
           = map (\<lambda>c'. if cid c' = cid c then c'\<lparr>title := ?T\<rparr> else c') (conversations s)"
    unfolding send settle_resolved_conversations
    using cur new log by (simp add: derive_title_eq)
  have c: "conversations (sendMessage_settle ?p (Resolved (Some d)) mclk cclk s')
           = map (\<lambda>c'. if cid c' = cid c then c'\<lparr>title := ?T\<rparr> else c') (conversations s')"
    unfolding settle_resolved_conversations
    using cur new log by (simp add: derive_title_eq)
  have e: "(case sendMessage_call content files clk s of
             (s1, None) \<Rightarrow> False
           | (s1, Some p) \<Rightarrow>
               conversations (sendMessage_settle p (Resolved (Some d)) mclk cclk s')
                 = map (\<lambda>c'. if cid c' = cid c then c'\<lparr>title := ?T\<rparr> else c')
                     (conversations s'))"
    by (simp only: call prod.case option.case c)
  from a b e show ?thesis by (intro conjI)
qed

theorem C5_two_files_witness:
  "currentConversation (createNewConversation clk0 initial_state)
     = Some \<lparr>cid = Some ''1700000000000'', title = ''New Chat'', createdAt = Some (date_iso clk0)\<rparr>
   \<and> messages (createNewConversation clk0 initial_state) = []
   \<and> trim [] = []
   \<and> length two_docs = 2
   \<and> map is_image (map atype two_docs) = [False, False]
   \<and> currentConversation
        (sendMessage [] two_docs clk1 (Resolved (Some reply_ok)) clk2 clk2
           (createNewConversation clk0 initial_state))
       = Some \<lparr>cid = Some ''1700000000000'', title = ''Chat with 2 file(s)'',
               createdAt = Some (date_iso clk0)\<rparr>
   \<and> conversations
        (sendMessage [] two_docs clk1 (Resolved (Some reply_ok)) clk2 clk2
           (createNewConversation clk0 initial_state))
       = [\<lparr>cid = Some ''1700000000000'', title = ''Chat with 2 file(s)'',
           createdAt = Some (date_iso clk0)\<rparr>]"
proof -
  have cur: "currentConversation (createNewConversation clk0 initial_state)
     = Some \<lparr>cid = Some ''1700000000000'', title = ''New Chat'', createdAt = Some (date_iso clk0)\<rparr>"
    by (simp add: created_clk0)
  have new: "title \<lparr>cid = Some ''1700000000000'', title = ''New Chat'',
                    createdAt = Some (date_iso clk0)\<rparr> = ''New Chat''"
    by simp
  have log: "messages (createNewConversation clk0 initial_state) = []"
    by (simp add: created_clk0)
  have pre: "trim [] \<noteq> [] \<or> two_docs \<noteq> []"
    by (simp add: two_docs_eq)
  show ?thesis
    using C5_first_exchange_sets_title [OF cur new log pre, where d = reply_ok
        and clk = clk1 and mclk = clk2 and cclk = clk2]
    by (simp add: cur log trim_empty two_docs_eq toString_Suc_Suc_0 created_clk0
        is_image_def startsWith_def)
qed

text \<open>
  C6. A send that passes the precondition and is answered, made while no conversation is
  current, creates a conversation, puts it at the front of the list and makes it current.
  Its id is the \<open>conversation_id\<close> of the reply when that is present and not the empty
  string (the request itself writes an absent id as the empty string), and the decimal
  text of \<open>Date.now()\<close> otherwise; its title follows the rule of C5. With nothing in
  between the log grows by the user message and then the assistant's. Whatever state
  \<open>s'\<close> the reply finds, the conversation is created in it and made current.
\<close>

theorem C6_no_current_creates_conversation:
  assumes cur: "currentConversation s = None"
    and pre: "trim content \<noteq> [] \<or> files \<noteq> []"
  shows "conversations (sendMessage content files clk (Resolved (Some d)) mclk cclk s)
           = \<lparr>cid = Some (case r_conversation_id d of
                             None \<Rightarrow> toString (date_now cclk)
                           | Some i \<Rightarrow> if i = [] then toString (date_now cclk) else i),
              title = (if trim content = []
                       then ''Chat with '' @ toString (length files) @ '' file(s)''
                       else take 50 (trim content)),
              createdAt = Some (date_iso cclk)\<rparr> # conversations s
       \<and> currentConversation (sendMessage content files clk (Resolved (Some d)) mclk cclk s)
           = Some \<lparr>cid = Some (case r_conversation_id d of
                             None \<Rightarrow> toString (date_now cclk)
                           | Some i \<Rightarrow> if i = [] then toString (date_now cclk) else i),
              title = (if trim content = []
                       then ''Chat with '' @ toString (length files) @ '' file(s)''
                       else take 50 (trim content)),
              createdAt = Some (date_iso cclk)\<rparr>
       \<and> messages (sendMessage content files clk (Resolved (Some d)) mclk cclk s)
           = messages s @ [userMessage content files clk, assistantMessage d mclk]
       \<and> mrole (userMessage content files clk) = User
       \<and> mrole (assistantMessage d mclk) = Assistant
       \<and> (case sendMessage_call content files clk s of
             (s1, None) \<Rightarrow> False
           | (s1, Some p) \<Rightarrow>
               conversations (sendMessage_settle p (Resolved (Some d)) mclk cclk s')
                 = \<lparr>cid = Some (case r_conversation_id d of
                                   None \<Rightarrow> toString (date_now cclk)
                                 | Some i \<Rightarrow> if i = [] then toString (date_now cclk) else i),
                    title = (if trim content = []
                             then ''Chat with '' @ toString (length files) @ '' file(s)''
                             else take 50 (trim content)),
                    createdAt = Some (date_iso cclk)\<rparr> # conversations s'
               \<and> currentConversation (sendMessage_settle p (Resolved (Some d)) mclk cclk s')
                 = Some \<lparr>cid = Some (case r_conversation_id d of
                                   None \<Rightarrow> toString (date_now cclk)
                                 | Some i \<Rightarrow> if i = [] then toString (date_now cclk) else i),
                    title = (if trim content = []
                             then ''Chat with '' @ toString (length files) @ '' file(s)''
                             else take 50 (trim content)),
                    createdAt = Some (date_iso cclk)\<rparr>)"
proof -
  let ?p = "\<lparr>p_content = content, p_files = files,
            p_currentConversation = currentConversation s,
            p_messages_length = length (messages s),
            p_request = build_request content files (currentConversation s)\<rparr>"
  let ?s1 = "s\<lparr>messages := messages s @ [userMessage content files clk], isLoading := True\<rparr>"
  let ?N = "\<lparr>cid = Some (case r_conversation_id d of None \<Rightarrow> toString (date_now cclk)
                      | Some i \<Rightarrow> if i = [] then toString (date_now cclk) else i),
         title = (if trim content = []
                  then ''Chat with '' @ toString (length files) @ '' file(s)''
                  else take 50 (trim content)),
         createdAt = Some (date_iso cclk)\<rparr>"
  have call: "sendMessage_call content files clk s = (?s1, Some ?p)"
    using pre by (rule call_Some)
  have send: "sendMessage content files clk (Resolved (Some d)) mclk cclk s
      = sendMessage_settle ?p (Resolved (Some d)) mclk cclk ?s1"
    by (simp add: sendMessage_def call)
  have id: "js_or (r_conversation_id d) (toString (date_now cclk))
      = (case r_conversation_id d of None \<Rightarrow> toString (date_now cclk)
         | Some i \<Rightarrow> if i = [] then toString (date_now cclk) else i)"
    by (simp add: js_or_def)
  have a: "conversations (sendMessage_settle ?p (Resolved (Some d)) mclk cclk t)
      = ?N # conversations t" for t
    unfolding settle_resolved_conversations using cur by (simp add: derive_title_eq id)
  have b: "currentConversation (sendMessage_settle ?p (Resolved (Some d)) mclk cclk t)
      = Some ?N" for t
    unfolding settle_resolved_current using cur by (simp add: derive_title_eq id)
  have m: "messages (sendMessage content files clk (Resolved (Some d)) mclk cclk s)
           = messages s @ [userMessage content files clk, assistantMessage d mclk]"
    by (simp add: send settle_resolved_messages)
  have r: "mrole (userMessage content files clk) = User"
    "mrole (assistantMessage d mclk) = Assistant"
    by (simp_all add: userMessage_def assistantMessage_def)
  have a1: "conversations (sendMessage content files clk (Resolved (Some d)) mclk cclk s)
      = ?N # conversations s"
    by (simp add: send a)
  have b1: "currentConversation (sendMessage content files clk (Resolved (Some d)) mclk cclk s)
      = Some ?N"
    by (simp only: send b)
  have c: "(case sendMessage_call content files clk s of
             (s1, None) \<Rightarrow> False
           | (s1, Some p) \<Rightarrow>
               conversations (sendMessage_settle p (Resolved (Some d)) mclk cclk s')
                 = ?N # conversations s'
               \<and> currentConversation (sendMessage_settle p (Resolved (Some d)) mclk cclk s')
                 = Some ?N)"
    by (simp only: call prod.case option.case a b simp_thms)
  from a1 b1 m r c show ?thesis by (intro conjI)
qed

theorem C6_scenario_witness:
  "currentConversation initial_state = None
   \<and> trim ''hello'' \<noteq> []
   \<and> conversations (sendMessage ''hello'' one_photo clk0 (Resolved (Some reply_hi_c1)) clk1 clk2
                       initial_state)
       = [\<lparr>cid = Some ''c1'', title = ''hello'', createdAt = Some (date_iso clk2)\<rparr>]
   \<and> currentConversation (sendMessage ''hello'' one_photo clk0 (Resolved (Some reply_hi_c1)) clk1 clk2
                       initial_state)
       = Some \<lparr>cid = Some ''c1'', title = ''hello'', createdAt = Some (date_iso clk2)\<rparr>
   \<and> map mrole (messages (sendMessage ''hello'' one_photo clk0 (Resolved (Some reply_hi_c1))
                       clk1 clk2 initial_state))
       = [User, Assistant]"
proof -
  have cur: "currentConversation initial_state = None"
    by (simp add: initial_state_def)
  have ne: "trim ''hello'' \<noteq> []"
    by (simp add: trim_hello)
  then have pre: "trim ''hello'' \<noteq> [] \<or> one_photo \<noteq> []"
    by simp
  show ?thesis
    using C6_no_current_creates_conversation [OF cur pre, where d = reply_hi_c1 and clk = clk0
      and mclk = clk1 and cclk = clk2 and s' = initial_state]
    by (simp add: trim_hello reply_hi_c1_def initial_state_def)
qed

section \<open>The length of titles\<close>

text \<open>
  The titles that the code makes itself stay within 50 characters: \<open>New Chat\<close>, and
  the derived title, for any number of files a JavaScript array can hold.
\<close>

lemma length_toString: "n < 10 ^ Suc k \<Longrightarrow> length (toString n) \<le> Suc k"
proof (induction k arbitrary: n)
  case 0
  then show ?case by (simp add: toString.simps [of n])
next
  case (Suc k)
  show ?case
  proof (cases "n < 10")
    case True
    then show ?thesis by (simp add: toString.simps [of n])
  next
    case False
    from Suc.prems have "n div 10 < 10 ^ Suc k" by (simp add: less_mult_imp_div_less)
    from Suc.IH [OF this] False show ?thesis by (simp add: toString.simps [of n])
  qed
qed

lemma derive_title_bounded:
  "length files < 10 ^ 32 \<Longrightarrow> length (derive_title content files) \<le> 50"
  using length_toString [of "length files" 31]
  by (simp add: derive_title_eq)

lemma trim_long_title: "trim long_title = long_title"
  by (simp add: long_title_def trim_def is_ws_def)

lemma length_long_title: "length long_title = 51"
  by (simp add: long_title_def)

lemma long_title_nonempty: "long_title \<noteq> []"
  by (simp add: long_title_def)

text \<open>
  C4. Every title should be at most 50 characters long, also after a rename. The send
  path cuts the derived title to 50 characters and the title field in the chat header
  takes no more than 50, but \<open>renameConversation\<close> stores the trimmed new title as it
  is, and the rename field of the sidebar sets no limit: renaming a fresh conversation
  to a title of 51 characters leaves that title, 51 characters long, in the list and in
  the current conversation.
\<close>

theorem C4_rename_stores_51_characters:
  "length long_title = 51
   \<and> map title (conversations (createNewConversation clk0 initial_state)) = [''New Chat'']
   \<and> map (length \<circ> title)
         (conversations (renameConversation ''1700000000000'' long_title
                           (createNewConversation clk0 initial_state))) = [51]
   \<and> map_option (length \<circ> title)
         (currentConversation (renameConversation ''1700000000000'' long_title
                           (createNewConversation clk0 initial_state))) = Some 51"
  by (simp add: renameConversation_def Let_def created_clk0 trim_long_title length_long_title
      long_title_nonempty current_has_id_def spread_title_def)

section \<open>Which conversation a reply is reconciled with\<close>

lemma two_chats_eq:
  "two_chats =
     \<lparr>conversations = [\<lparr>cid = Some ''1700000000250'', title = ''New Chat'',
                          createdAt = Some (date_iso clk1)\<rparr>,
                       \<lparr>cid = Some ''1700000000000'', title = ''New Chat'',
                          createdAt = Some (date_iso clk0)\<rparr>],
      currentConversation = Some \<lparr>cid = Some ''1700000000250'', title = ''New Chat'',
                          createdAt = Some (date_iso clk1)\<rparr>,
      messages = [], isLoading = False, sidebarOpen = True\<rparr>"
  by (simp add: two_chats_def createNewConversation_def Let_def initial_state_def
      toString_clk0 toString_clk1)

lemma hello_call_eq:
  "sendMessage_call ''hello'' no_files clk2 two_chats = (hello_waiting, Some hello_pending)"
  by (simp add: sendMessage_call_def trim_hello two_chats_eq hello_waiting_def
      hello_pending_def build_request_def js_or_def no_files_def)

lemma switched_eq:
  "switched =
     \<lparr>conversations = [\<lparr>cid = Some ''1700000000250'', title = ''New Chat'',
                          createdAt = Some (date_iso clk1)\<rparr>,
                       \<lparr>cid = Some ''1700000000000'', title = ''New Chat'',
                          createdAt = Some (date_iso clk0)\<rparr>],
      currentConversation = Some \<lparr>cid = Some ''1700000000000'', title = ''New Chat'',
                          createdAt = Some (date_iso clk0)\<rparr>,
      messages = [], isLoading = True, sidebarOpen = True\<rparr>"
  by (simp add: switched_def hello_waiting_def two_chats_eq selectConversation_def)

lemma derive_title_hello: "derive_title ''hello'' no_files = ''hello''"
  by (simp add: derive_title_eq trim_hello)

text \<open>
  C2, as the source has it. The reply is reconciled by what the call saw: a conversation
  is created, put first and made current exactly when none was current at the call, and
  the derived title goes to the entries of the list that carry the id of the
  conversation current at the call, exactly when that conversation was titled
  \<open>New Chat\<close> and the log was empty at the call. The list of the state \<open>s'\<close> that the
  reply finds is the one that is changed; the conversation current in \<open>s'\<close> enters
  neither decision.
\<close>

theorem C2_reconciliation_decided_at_call:
  assumes call: "sendMessage_call content files clk s = (s1, Some p)"
  shows "conversations (sendMessage_settle p (Resolved (Some d)) mclk cclk s') =
           (case currentConversation s of
              None \<Rightarrow>
                \<lparr>cid = Some (js_or (r_conversation_id d) (toString (date_now cclk))),
                 title = derive_title content files,
                 createdAt = Some (date_iso cclk)\<rparr> # conversations s'
            | Some c \<Rightarrow>
                if title c = ''New Chat'' \<and> messages s = []
                then map (\<lambda>c'. if cid c' = cid c
                                then c'\<lparr>title := derive_title content files\<rparr> else c')
                         (conversations s')
                else conversations s')
       \<and> (case currentConversation s of
              None \<Rightarrow>
                currentConversation (sendMessage_settle p (Resolved (Some d)) mclk cclk s')
                  = Some \<lparr>cid = Some (js_or (r_conversation_id d) (toString (date_now cclk))),
                          title = derive_title content files,
                          createdAt = Some (date_iso cclk)\<rparr>
            | Some c \<Rightarrow>
                (title c = ''New Chat'' \<and> messages s = [])
                \<or> currentConversation (sendMessage_settle p (Resolved (Some d)) mclk cclk s')
                    = currentConversation s')"
proof -
  from call have p: "p = \<lparr>p_content = content, p_files = files,
            p_currentConversation = currentConversation s,
            p_messages_length = length (messages s),
            p_request = build_request content files (currentConversation s)\<rparr>"
    by (auto simp: sendMessage_call_def split: if_splits)
  show ?thesis
    by (simp add: settle_resolved_conversations settle_resolved_current p split: option.splits)
qed

theorem C2_reconciliation_witness:
  "sendMessage_call ''hello'' no_files clk2 two_chats = (hello_waiting, Some hello_pending)
   \<and> conversations (sendMessage_settle hello_pending (Resolved (Some reply_ok)) clk3 clk3 switched)
       = [\<lparr>cid = Some ''1700000000250'', title = ''hello'', createdAt = Some (date_iso clk1)\<rparr>,
          \<lparr>cid = Some ''1700000000000'', title = ''New Chat'', createdAt = Some (date_iso clk0)\<rparr>]"
proof -
  have a: "conversations (sendMessage_settle hello_pending (Resolved (Some reply_ok)) clk3 clk3 switched)
       = [\<lparr>cid = Some ''1700000000250'', title = ''hello'', createdAt = Some (date_iso clk1)\<rparr>,
          \<lparr>cid = Some ''1700000000000'', title = ''New Chat'', createdAt = Some (date_iso clk0)\<rparr>]"
    using C2_reconciliation_decided_at_call [OF hello_call_eq, where d = reply_ok and mclk = clk3
        and cclk = clk3 and s' = switched]
    by (simp add: two_chats_eq switched_eq derive_title_hello)
  from hello_call_eq a show ?thesis by (intro conjI)
qed

text \<open>
  C2 as stated fails. With two untitled conversations, a send of \<open>hello\<close> from the
  later one and a switch to the earlier one while the request is awaited, the reply
  titles the list entry of the conversation the send was made from. Had the current
  conversation been looked up again at the reply, the entry of the conversation
  selected in the meantime would have been titled instead.
\<close>

theorem C2_stale_conversation_counterexample:
  "sendMessage_call ''hello'' no_files clk2 two_chats = (hello_waiting, Some hello_pending)
   \<and> map_option cid (currentConversation two_chats) = Some (Some ''1700000000250'')
   \<and> map_option cid (currentConversation switched) = Some (Some ''1700000000000'')
   \<and> map cid (conversations switched) = [Some ''1700000000250'', Some ''1700000000000'']
   \<and> map title (conversations
        (sendMessage_settle hello_pending (Resolved (Some reply_ok)) clk3 clk3 switched))
       = [''hello'', ''New Chat'']
   \<and> map title (conversations
        (settle_resolving_at_arrival hello_pending (Resolved (Some reply_ok)) clk3 clk3 switched))
       = [''New Chat'', ''hello'']
   \<and> sendMessage_settle hello_pending (Resolved (Some reply_ok)) clk3 clk3 switched
       \<noteq> settle_resolving_at_arrival hello_pending (Resolved (Some reply_ok)) clk3 clk3 switched"
proof -
  have a: "map title (conversations
        (sendMessage_settle hello_pending (Resolved (Some reply_ok)) clk3 clk3 switched))
       = [''hello'', ''New Chat'']"
    by (simp add: settle_resolved_conversations hello_pending_def switched_eq derive_title_hello)
  have b: "map title (conversations
        (settle_resolving_at_arrival hello_pending (Resolved (Some reply_ok)) clk3 clk3 switched))
       = [''New Chat'', ''hello'']"
    by (simp add: settle_resolving_at_arrival_def resolve_at_arrival_def
        settle_resolved_conversations hello_pending_def switched_eq derive_title_hello)
  from a b have c: "sendMessage_settle hello_pending (Resolved (Some reply_ok)) clk3 clk3 switched
       \<noteq> settle_resolving_at_arrival hello_pending (Resolved (Some reply_ok)) clk3 clk3 switched"
    by auto
  have d: "map_option cid (currentConversation two_chats) = Some (Some ''1700000000250'')"
    by (simp add: two_chats_eq)
  have e: "map_option cid (currentConversation switched) = Some (Some ''1700000000000'')"
    "map cid (conversations switched) = [Some ''1700000000250'', Some ''1700000000000'']"
    by (simp_all add: switched_eq)
  from hello_call_eq a b c d e show ?thesis by (intro conjI)
qed

section \<open>A send that fails\<close>

text \<open>
  C7. When the request is rejected, or resolves without a body, the transition appends
  exactly one message to the log as it is then: an assistant message with the fixed
  apology and the error flag. The conversation list and the current conversation are
  left as they are and the loading flag is lowered. A send with nothing in between
  therefore grows the log by the user message followed by that error message.
\<close>

theorem C7_failed_send_appends_one_error_message:
  "out = Rejected \<or> out = Resolved None \<Longrightarrow>
     messages (sendMessage_settle p out mclk cclk s) = messages s @ [errorMessage mclk]
     \<and> conversations (sendMessage_settle p out mclk cclk s) = conversations s
     \<and> currentConversation (sendMessage_settle p out mclk cclk s) = currentConversation s
     \<and> isLoading (sendMessage_settle p out mclk cclk s) = False
     \<and> mrole (errorMessage mclk) = Assistant
     \<and> mcontent (errorMessage mclk) = ''Sorry, I encountered an error. Please try again.''
     \<and> merror (errorMessage mclk)
     \<and> (trim content \<noteq> [] \<or> files \<noteq> [] \<longrightarrow>
          messages (sendMessage content files clk out mclk cclk s)
            = messages s @ [userMessage content files clk, errorMessage mclk]
          \<and> conversations (sendMessage content files clk out mclk cclk s) = conversations s
          \<and> currentConversation (sendMessage content files clk out mclk cclk s)
              = currentConversation s
          \<and> isLoading (sendMessage content files clk out mclk cclk s) = False)"
  by (auto simp: sendMessage_settle_def sendMessage_def sendMessage_call_def errorMessage_def)

theorem C7_failed_send_witness:
  "(Rejected = Rejected \<or> Rejected = Resolved None)
   \<and> trim ''hi'' \<noteq> []
   \<and> map mcontent (messages (sendMessage ''hi'' no_files clk0 Rejected clk1 clk2 initial_state))
       = [''Sent 0 file(s)'', ''Sorry, I encountered an error. Please try again.'']
   \<and> map merror (messages (sendMessage ''hi'' no_files clk0 Rejected clk1 clk2 initial_state))
       = [False, True]
   \<and> conversations (sendMessage ''hi'' no_files clk0 Rejected clk1 clk2 initial_state) = []
   \<and> currentConversation (sendMessage ''hi'' no_files clk0 Rejected clk1 clk2 initial_state) = None
   \<and> isLoading (sendMessage ''hi'' no_files clk0 Rejected clk1 clk2 initial_state) = False"
proof -
  have h: "Rejected = Rejected \<or> Rejected = Resolved None" by simp
  have t: "trim ''hi'' \<noteq> []" by (simp add: trim_hi)
  show ?thesis
    using t C7_failed_send_appends_one_error_message
      [OF h, where s = initial_state and content = "''hi''" and files = no_files
         and clk = clk0 and mclk = clk1 and cclk = clk2
         and p = "\<lparr>p_content = ''hi'', p_files = no_files, p_currentConversation = None,
                   p_messages_length = 0, p_request = build_request ''hi'' no_files None\<rparr>"]
    by (simp add: initial_state_def userMessage_def user_content_def errorMessage_def
        no_files_def toString_0 trim_hi)
qed

section \<open>Preview URLs of the staged files\<close>

text \<open>
  The invariant of the staging area: the staged ids differ from each other, the staged
  files that hold a preview URL are the pictures, each holds a URL of its own, and those
  URLs are the registered ones.
\<close>

lemma previews_of_simps [simp]:
  "previews_of [] = []"
  "previews_of (f # fs) = (case preview f of None \<Rightarrow> previews_of fs | Some u \<Rightarrow> u # previews_of fs)"
  "previews_of (fs @ gs) = previews_of fs @ previews_of gs"
  by (auto simp: previews_of_def split: option.splits)





















section \<open>Calls that change nothing\<close>

lemma trim_survey_request: "trim survey_request = survey_request"
  by (simp add: survey_request_def trim_def is_ws_def)

lemma take_survey_request: "take 50 survey_request = survey_title"
  by (simp add: survey_request_def survey_title_def)

lemma survey_request_nonempty: "survey_request \<noteq> []"
  by (simp add: survey_request_def)

lemma trim_survey_title: "trim survey_title = ''Summarise the attached site survey for the region''"
  by (simp add: survey_title_def trim_def is_ws_def)

lemma survey_title_neq: "survey_title \<noteq> ''Summarise the attached site survey for the region''"
  by (simp add: survey_title_def)

lemma survey_chat_conversations:
  "conversations survey_chat =
     [\<lparr>cid = Some ''1700000000000'', title = survey_title, createdAt = Some (date_iso clk0)\<rparr>]"
  by (simp add: survey_chat_def sendMessage_def sendMessage_call_def trim_survey_request
      survey_request_nonempty settle_resolved_conversations created_clk0 derive_title_eq
      take_survey_request)

lemma survey_chat_current:
  "currentConversation survey_chat =
     Some \<lparr>cid = Some ''1700000000000'', title = survey_title, createdAt = Some (date_iso clk0)\<rparr>"
  by (simp add: survey_chat_def sendMessage_def sendMessage_call_def trim_survey_request
      survey_request_nonempty settle_resolved_current created_clk0 derive_title_eq
      take_survey_request spread_title_def)

lemma rename_same_title:
  assumes lst: "list_all (\<lambda>c. cid c \<noteq> Some i \<or> title c = trim t) (conversations s)"
    and cur: "case currentConversation s of None \<Rightarrow> True
              | Some c \<Rightarrow> cid c \<noteq> Some i \<or> title c = trim t"
  shows "renameConversation i t s = s"
proof (cases "trim t = []")
  case True
  then show ?thesis by (simp add: renameConversation_def)
next
  case False
  have m: "map (\<lambda>c. if cid c = Some i then c\<lparr>title := trim t\<rparr> else c) (conversations s)
             = conversations s"
    using lst by (intro map_idI) (auto simp: list_all_iff)
  show ?thesis
  proof (cases "currentConversation s")
    case None
    with False m show ?thesis
      by (simp add: renameConversation_def Let_def current_has_id_def)
  next
    case (Some c)
    with cur have "cid c \<noteq> Some i \<or> title c = trim t" by simp
    with Some False m show ?thesis
      by (auto simp: renameConversation_def Let_def current_has_id_def spread_title_def)
  qed
qed

lemma delete_absent:
  assumes "Some i \<notin> set (map cid (conversations s))" and "\<not> current_has_id s i"
  shows "deleteConversation i s = s"
proof -
  have "filter (\<lambda>c. cid c \<noteq> Some i) (conversations s) = conversations s"
    using assms(1) by (intro filter_True) force
  with assms(2) show ?thesis
    by (simp add: deleteConversation_def Let_def)
qed

lemma removeFile_absent:
  assumes "fileId \<notin> set (map aid (attachedFiles pg))"
  shows "removeFile fileId pg = pg"
proof -
  have f: "filter (\<lambda>f. aid f \<noteq> fileId) (attachedFiles pg) = attachedFiles pg"
    using assms by (intro filter_True) auto
  have "find (\<lambda>f. aid f = fileId) (attachedFiles pg) = None"
    using assms by (auto simp: find_None_iff)
  with f show ?thesis
    by (simp add: removeFile_def Let_def)
qed

lemma trim_blank: "trim ''   '' = []"
  by (simp add: trim_def is_ws_def)

lemma trim_padded_new_chat: "trim ''  New Chat '' = ''New Chat''"
  by (simp add: trim_def is_ws_def)

lemma one_photo_page:
  "handleFileSelect [(3, photo_png)] (empty_page 0) =
     \<lparr>attachedFiles = [\<lparr>aid = 3::nat, afile = photo_png, aname = ''photo.png'', asize = 5,
                          atype = ''image/png'', preview = Some 0\<rparr>],
      urls = \<lparr>live = {0}, issued = 1\<rparr>, alerts = []\<rparr>"
  by (simp add: handleFileSelect_def empty_page_def too_large_def maxSize_def
      photo_png_def is_image_def startsWith_def createObjectURL_def)

text \<open>
  C8, as the source has it. These calls leave the state they act on as it is: a rename
  whose new title is empty once trimmed; a rename whose trimmed new title is already the
  title of every conversation with that id, in the list and as the current one; a delete
  of an id that no conversation carries, neither in the list nor as the current one; the
  removal of a staged file under an id that is not staged, which also leaves the blob
  URLs alone; and a send with no text once trimmed and no file. The conversation
  operations do not take the staged files as an argument, nor the removal the
  application state.
\<close>

theorem C8_invalid_arguments_change_nothing:
  "(trim newTitle = [] \<longrightarrow> renameConversation i newTitle s = s)
   \<and> (list_all (\<lambda>c. cid c \<noteq> Some j \<or> title c = trim t) (conversations s2)
        \<and> (case currentConversation s2 of None \<Rightarrow> True
            | Some c \<Rightarrow> cid c \<noteq> Some j \<or> title c = trim t)
        \<longrightarrow> renameConversation j t s2 = s2)
   \<and> (Some k \<notin> set (map cid (conversations s3)) \<and> \<not> current_has_id s3 k
        \<longrightarrow> deleteConversation k s3 = s3)
   \<and> (fileId \<notin> set (map aid (attachedFiles pg)) \<longrightarrow> removeFile fileId pg = pg)
   \<and> (trim content = [] \<and> files = []
        \<longrightarrow> sendMessage_call content files clk s4 = (s4, None)
            \<and> sendMessage content files clk out mclk cclk s4 = s4)"
proof (intro conjI impI)
  assume "trim newTitle = []"
  then show "renameConversation i newTitle s = s"
    by (simp add: renameConversation_def)
next
  assume "list_all (\<lambda>c. cid c \<noteq> Some j \<or> title c = trim t) (conversations s2)
        \<and> (case currentConversation s2 of None \<Rightarrow> True
            | Some c \<Rightarrow> cid c \<noteq> Some j \<or> title c = trim t)"
  then show "renameConversation j t s2 = s2"
    by (intro rename_same_title) simp_all
next
  assume "Some k \<notin> set (map cid (conversations s3)) \<and> \<not> current_has_id s3 k"
  then show "deleteConversation k s3 = s3"
    by (intro delete_absent) simp_all
next
  assume "fileId \<notin> set (map aid (attachedFiles pg))"
  then show "removeFile fileId pg = pg"
    by (rule removeFile_absent)
next
  assume e: "trim content = [] \<and> files = []"
  then show "sendMessage_call content files clk s4 = (s4, None)"
    by (simp add: sendMessage_call_def)
  from e show "sendMessage content files clk out mclk cclk s4 = s4"
    by (simp add: sendMessage_def sendMessage_call_def)
qed

theorem C8_invalid_arguments_witness:
  "trim ''   '' = []
   \<and> renameConversation ''1700000000000'' ''   '' two_chats = two_chats
   \<and> map title (conversations two_chats) = [''New Chat'', ''New Chat'']
   \<and> trim ''  New Chat '' = ''New Chat''
   \<and> renameConversation ''1700000000250'' ''  New Chat '' two_chats = two_chats
   \<and> map cid (conversations two_chats) = [Some ''1700000000250'', Some ''1700000000000'']
   \<and> deleteConversation ''c1'' two_chats = two_chats
   \<and> map aid (attachedFiles (handleFileSelect [(3, photo_png)] (empty_page 0))) = [3::nat]
   \<and> removeFile (9::nat) (handleFileSelect [(3, photo_png)] (empty_page 0))
       = handleFileSelect [(3::nat, photo_png)] (empty_page 0)
   \<and> sendMessage ''   '' no_files clk2 (Resolved (Some reply_ok)) clk3 clk3 two_chats = two_chats"
proof -
  note inst = C8_invalid_arguments_change_nothing
    [where newTitle = "''   ''" and i = "''1700000000000''" and s = two_chats
       and t = "''  New Chat ''" and j = "''1700000000250''" and ?s2.0 = two_chats
       and k = "''c1''" and ?s3.0 = two_chats
       and fileId = "9::nat" and pg = "handleFileSelect [(3, photo_png)] (empty_page 0)"
       and content = "''   ''" and files = no_files and clk = clk2
       and out = "Resolved (Some reply_ok)" and mclk = clk3 and cclk = clk3 and ?s4.0 = two_chats]
  have h2: "list_all (\<lambda>c. cid c \<noteq> Some ''1700000000250'' \<or> title c = trim ''  New Chat '')
              (conversations two_chats)
        \<and> (case currentConversation two_chats of None \<Rightarrow> True
            | Some c \<Rightarrow> cid c \<noteq> Some ''1700000000250'' \<or> title c = trim ''  New Chat '')"
    by (simp add: two_chats_eq trim_padded_new_chat)
  have h3: "Some ''c1'' \<notin> set (map cid (conversations two_chats)) \<and> \<not> current_has_id two_chats ''c1''"
    by (simp add: two_chats_eq current_has_id_def)
  have h4: "(9::nat) \<notin> set (map aid (attachedFiles (handleFileSelect [(3, photo_png)] (empty_page 0))))"
    by (simp add: one_photo_page)
  have h5: "trim ''   '' = [] \<and> no_files = []"
    by (simp add: trim_blank no_files_def)
  from inst trim_blank have a: "renameConversation ''1700000000000'' ''   '' two_chats = two_chats"
    by blast
  from inst h2 have b: "renameConversation ''1700000000250'' ''  New Chat '' two_chats = two_chats"
    by blast
  from inst h3 have c: "deleteConversation ''c1'' two_chats = two_chats"
    by blast
  from inst h4 have d: "removeFile (9::nat) (handleFileSelect [(3, photo_png)] (empty_page 0))
       = handleFileSelect [(3::nat, photo_png)] (empty_page 0)"
    by blast
  from inst h5 have e: "sendMessage ''   '' no_files clk2 (Resolved (Some reply_ok)) clk3 clk3 two_chats
       = two_chats"
    by blast
  have f: "map title (conversations two_chats) = [''New Chat'', ''New Chat'']"
    "map cid (conversations two_chats) = [Some ''1700000000250'', Some ''1700000000000'']"
    by (simp_all add: two_chats_eq)
  have g: "map aid (attachedFiles (handleFileSelect [(3, photo_png)] (empty_page 0))) = [3::nat]"
    by (simp add: one_photo_page)
  from trim_blank a f trim_padded_new_chat b c g d e show ?thesis by (intro conjI)
qed

text \<open>
  C8 as stated fails for a rename to the very title the conversation has, when that
  title ends in a space. Such a title comes from a first message whose 50th character is
  a space; the rename stores the trimmed title, one character shorter.
\<close>

theorem C8_rename_to_own_title_counterexample:
  "map title (conversations survey_chat) = [survey_title]
   \<and> map_option title (currentConversation survey_chat) = Some survey_title
   \<and> map title (conversations (renameConversation ''1700000000000'' survey_title survey_chat))
       = [''Summarise the attached site survey for the region'']
   \<and> renameConversation ''1700000000000'' survey_title survey_chat \<noteq> survey_chat"
proof -
  have a: "map title (conversations survey_chat) = [survey_title]"
    by (simp add: survey_chat_conversations)
  have b: "map_option title (currentConversation survey_chat) = Some survey_title"
    by (simp add: survey_chat_current)
  have c: "map title (conversations (renameConversation ''1700000000000'' survey_title survey_chat))
       = [''Summarise the attached site survey for the region'']"
    by (simp add: renameConversation_def Let_def trim_survey_title survey_chat_conversations
        current_has_id_def survey_chat_current)
  from a c survey_title_neq
  have d: "renameConversation ''1700000000000'' survey_title survey_chat \<noteq> survey_chat"
    by auto
  from a b c d show ?thesis by (intro conjI)
qed

end
